theory Spec2Isabelle
  imports Main "HOL-Library.Sublist" "HOL-Library.Multiset"
begin

section \<open>JavaScript strings\<close>

text \<open>
  A JavaScript string is modelled as the list of its code units, restricted to the code
  units below 256 (ASCII and Latin-1), which is what a \<^typ>\<open>char\<close> holds. On that alphabet
  \<open>trim\<close>, \<open>toLowerCase\<close>, \<open>indexOf\<close> and \<open>parseInt\<close> are written out as ECMAScript
  defines them.
\<close>

text \<open>WhiteSpace and LineTerminator code units: TAB, LF, VT, FF, CR, SP and NBSP.\<close>

definition is_space :: "char \<Rightarrow> bool" where
  "is_space c = (of_char c \<in> {9, 10, 11, 12, 13, 32, 160 :: nat})"

text \<open>\<open>String.prototype.trim\<close>: white space is removed from both ends.\<close>

definition trim :: "string \<Rightarrow> string" where
  "trim s = rev (dropWhile is_space (rev (dropWhile is_space s)))"

text \<open>
  \<open>String.prototype.toLowerCase\<close>: A to Z, and the Latin-1 capitals (0xC0 to 0xDE but
  the multiplication sign 0xD7), move up by 32; every other code unit stays.
\<close>

definition lower_char :: "char \<Rightarrow> char" where
  "lower_char c =
     (let n = (of_char c :: nat)
      in if (65 \<le> n \<and> n \<le> 90) \<or> (192 \<le> n \<and> n \<le> 222 \<and> n \<noteq> 215)
         then char_of (n + 32) else c)"

definition toLowerCase :: "string \<Rightarrow> string" where
  "toLowerCase s = map lower_char s"

text \<open>
  \<open>String.prototype.indexOf\<close>: the zero-based position of the first occurrence of
  \<open>pat\<close>, and \<open>-1\<close> when there is none. \<open>indexOf_from k\<close> scans a suffix that starts at
  position \<open>k\<close>.
\<close>

fun indexOf_from :: "nat \<Rightarrow> string \<Rightarrow> string \<Rightarrow> int" where
  "indexOf_from k [] pat = (if pat = [] then int k else - 1)"
| "indexOf_from k (c # t) pat =
     (if prefix pat (c # t) then int k else indexOf_from (Suc k) t pat)"

definition indexOf :: "string \<Rightarrow> string \<Rightarrow> int" where
  "indexOf s pat = indexOf_from 0 s pat"

text \<open>
  \<open>parseInt(string)\<close> with no radix: leading white space is skipped, a sign is read, a
  prefix \<open>0x\<close> or \<open>0X\<close> selects radix 16 (radix 10 otherwise), and the longest run of
  digits is the value. No digit at all gives \<open>NaN\<close>, which is \<open>None\<close> here. The result is
  kept as an exact integer: the only use made of it is as the end of a \<open>slice\<close>, which
  compares it with an array length.
\<close>

definition digit_value :: "char \<Rightarrow> nat option" where
  "digit_value c =
     (let n = (of_char c :: nat)
      in if 48 \<le> n \<and> n \<le> 57 then Some (n - 48)
         else if 97 \<le> n \<and> n \<le> 102 then Some (n - 87)
         else if 65 \<le> n \<and> n \<le> 70 then Some (n - 55)
         else None)"

definition is_digit :: "nat \<Rightarrow> char \<Rightarrow> bool" where
  "is_digit R c = (case digit_value c of None \<Rightarrow> False | Some d \<Rightarrow> d < R)"

definition digits_value :: "nat \<Rightarrow> string \<Rightarrow> nat" where
  "digits_value R Z = foldl (\<lambda>acc c. acc * R + the (digit_value c)) 0 Z"

definition parseInt :: "string \<Rightarrow> int option" where
  "parseInt inputString =
     (let S = dropWhile is_space inputString;
          sign = (if take 1 S = ''-'' then - 1 else 1 :: int);
          S = (if take 1 S = ''+'' \<or> take 1 S = ''-'' then drop 1 S else S);
          hex = (take 2 S = ''0x'' \<or> take 2 S = ''0X'');
          R = (if hex then 16 else 10 :: nat);
          S = (if hex then drop 2 S else S);
          Z = takeWhile (is_digit R) S
      in if Z = [] then None else Some (sign * int (digits_value R Z)))"

text \<open>
  \<open>Array.prototype.slice(0, end)\<close>: \<open>NaN\<close> counts as 0, a negative end counts from the
  back of the array, and the end is clamped into the array.
\<close>

definition slice0 :: "'a list \<Rightarrow> int option \<Rightarrow> 'a list" where
  "slice0 xs e =
     (let len = int (length xs);
          relativeEnd = (case e of None \<Rightarrow> 0 | Some n \<Rightarrow> n);
          final = (if relativeEnd < 0 then max (len + relativeEnd) 0 else min relativeEnd len)
      in take (nat final) xs)"

text \<open>
  \<open>Array.prototype.sort(cmp)\<close>. ECMAScript requires the sort to be stable, so for a
  consistent comparator the result is the stable sorted arrangement, computed here by
  insertion: an element goes in front of the first one it does not have to follow.
\<close>

fun insert_sorted :: "('a \<Rightarrow> 'a \<Rightarrow> int) \<Rightarrow> 'a \<Rightarrow> 'a list \<Rightarrow> 'a list" where
  "insert_sorted cmp x [] = [x]"
| "insert_sorted cmp x (y # ys) =
     (if cmp x y \<le> 0 then x # y # ys else y # insert_sorted cmp x ys)"

fun js_sort :: "('a \<Rightarrow> 'a \<Rightarrow> int) \<Rightarrow> 'a list \<Rightarrow> 'a list" where
  "js_sort cmp [] = []"
| "js_sort cmp (x # xs) = insert_sorted cmp x (js_sort cmp xs)"

text \<open>Truthiness of a query-string parameter: \<open>undefined\<close> and the empty string are falsy.\<close>

definition truthy :: "string option \<Rightarrow> bool" where
  "truthy v = (case v of None \<Rightarrow> False | Some s \<Rightarrow> s \<noteq> [])"

section \<open>The store and the database module\<close>

text \<open>
  The tables of \<open>database/db.js\<close>, with the columns the search reads. A nullable column
  is an option. A table is the list of its rows, in the order in which a \<open>SELECT\<close> with
  no \<open>ORDER BY\<close> returns them.
\<close>

record profile_row =
  profile_id :: int
  profile_name :: string
  profile_email :: string
  profile_education :: "string option"

record skill_row =
  skill_id :: int
  skill_name :: string
  skill_proficiency :: "int option"
  skill_category :: "string option"

record project_row =
  project_id :: int
  project_title :: string
  project_description :: "string option"

record work_row =
  work_id :: int
  work_company :: string
  work_position :: string
  work_description :: "string option"

record store =
  profile :: "profile_row list"
  skills :: "skill_row list"
  projects :: "project_row list"
  work_experience :: "work_row list"

text \<open>A value of a result column: \<open>NULL\<close>, a string or a number.\<close>

datatype sqlval = Null | Text string | Number int

text \<open>
  The operators of the SQL text whose meaning the server decides, not the repository:
  \<open>LIKE\<close> and \<open>=\<close> on strings follow the collation of the connection, and \<open>||\<close> is
  concatenation or logical OR by the SQL mode. They are parameters of the model.
  \<open>like eng v p\<close> is \<open>v LIKE p\<close>, \<open>str_eq eng v w\<close> is \<open>v = w\<close>.
\<close>

record engine =
  like :: "string \<Rightarrow> string \<Rightarrow> bool"
  str_eq :: "string \<Rightarrow> string \<Rightarrow> bool"
  pipes :: "sqlval \<Rightarrow> sqlval \<Rightarrow> sqlval"

text \<open>
  On a \<open>NULL\<close> column \<open>LIKE\<close> and \<open>=\<close> are unknown. The conditions below combine them
  with \<open>AND\<close> and \<open>OR\<close> only, and a row is selected when its condition is true, so
  unknown is read as false.
\<close>

definition like_null :: "engine \<Rightarrow> string option \<Rightarrow> string \<Rightarrow> bool" where
  "like_null eng v p = (case v of None \<Rightarrow> False | Some s \<Rightarrow> like eng s p)"

definition eq_null :: "engine \<Rightarrow> string option \<Rightarrow> string \<Rightarrow> bool" where
  "eq_null eng v w = (case v of None \<Rightarrow> False | Some s \<Rightarrow> str_eq eng s w)"

text \<open>The common shape \<open>{type, title, description, category, id}\<close> of a result row.\<close>

record result_row =
  rtype :: string
  title :: string
  description :: sqlval
  category :: "string option"
  rid :: int

text \<open>The four \<open>SELECT\<close> lists.\<close>

definition profile_select :: "profile_row \<Rightarrow> result_row" where
  "profile_select r =
     \<lparr>rtype = ''profile'', title = profile_name r, description = Text (profile_email r),
      category = Some ''Profile Information'', rid = profile_id r\<rparr>"

definition proficiency_level :: "int option \<Rightarrow> string" where
  "proficiency_level p =
     (if p = Some 5 then ''Expert level''
      else if p = Some 4 then ''Advanced level''
      else if p = Some 3 then ''Intermediate level''
      else if p = Some 2 then ''Beginner level''
      else ''Basic level'')"

definition skill_select :: "skill_row \<Rightarrow> result_row" where
  "skill_select r =
     \<lparr>rtype = ''skill'', title = skill_name r,
      description = Text (proficiency_level (skill_proficiency r)),
      category = skill_category r, rid = skill_id r\<rparr>"

definition project_select :: "project_row \<Rightarrow> result_row" where
  "project_select r =
     \<lparr>rtype = ''project'', title = project_title r,
      description = (case project_description r of None \<Rightarrow> Null | Some d \<Rightarrow> Text d),
      category = Some ''Project'', rid = project_id r\<rparr>"

definition work_select :: "engine \<Rightarrow> work_row \<Rightarrow> result_row" where
  "work_select eng r =
     \<lparr>rtype = ''work'', title = work_position r,
      description =
        pipes eng (pipes eng (Text (work_company r)) (Text '' - ''))
          (Text (case work_description r of None \<Rightarrow> [] | Some d \<Rightarrow> d)),
      category = Some ''Work Experience'', rid = work_id r\<rparr>"

text \<open>
  The statements the search sends. \<open>SelectSkills True\<close> is the skills statement with
  \<open>AND category = ?\<close> spliced in after the two \<open>LIKE\<close>s. A query is a statement with the
  values bound to its \<open>?\<close> placeholders, in order.
\<close>

datatype statement = SelectProfile | SelectSkills bool | SelectProjects | SelectWork

type_synonym query = "statement \<times> string list"

datatype dberror = NotInitialized | QueryFailed

text \<open>
  The \<open>WHERE\<close> clauses, the placeholders bound in order. In the skills statement with
  the category filter the condition reads
  \<open>name LIKE ? OR category LIKE ? AND category = ?\<close>, and \<open>AND\<close> binds tighter than \<open>OR\<close>.
  A statement sent with a wrong number of values fails.
\<close>

fun run_select :: "engine \<Rightarrow> store \<Rightarrow> query \<Rightarrow> dberror + result_row list" where
  "run_select eng st (SelectProfile, [p1, p2, p3]) =
     Inr (map profile_select
       (filter (\<lambda>r. like eng (profile_name r) p1 \<or> like eng (profile_email r) p2
                    \<or> like_null eng (profile_education r) p3) (profile st)))"
| "run_select eng st (SelectSkills False, [p1, p2]) =
     Inr (map skill_select
       (filter (\<lambda>r. like eng (skill_name r) p1 \<or> like_null eng (skill_category r) p2)
          (skills st)))"
| "run_select eng st (SelectSkills True, [p1, p2, c]) =
     Inr (map skill_select
       (filter (\<lambda>r. like eng (skill_name r) p1
                    \<or> (like_null eng (skill_category r) p2 \<and> eq_null eng (skill_category r) c))
          (skills st)))"
| "run_select eng st (SelectProjects, [p1, p2]) =
     Inr (map project_select
       (filter (\<lambda>r. like eng (project_title r) p1 \<or> like_null eng (project_description r) p2)
          (projects st)))"
| "run_select eng st (SelectWork, [p1, p2, p3]) =
     Inr (map (work_select eng)
       (filter (\<lambda>r. like eng (work_company r) p1 \<or> like eng (work_position r) p2
                    \<or> like_null eng (work_description r) p3) (work_experience st)))"
| "run_select eng st (_, _) = Inl QueryFailed"

text \<open>
  \<open>db.all\<close> of \<open>database/db.js\<close>: \<open>getPool\<close> throws while the pool is not set; with a
  pool, the rows of the statement are returned, or the connection or the statement
  fails. The pool is an option; a server is its engine, its tables and whether it
  answers.
\<close>

record server =
  server_engine :: engine
  server_store :: store
  server_up :: bool

definition db_all :: "server option \<Rightarrow> query \<Rightarrow> dberror + result_row list" where
  "db_all pool qry =
     (case pool of
        None \<Rightarrow> Inl NotInitialized
      | Some srv \<Rightarrow>
          if server_up srv then run_select (server_engine srv) (server_store srv) qry
          else Inl QueryFailed)"

section \<open>Requests, responses and the calls of \<open>db.all\<close>\<close>

text \<open>
  \<open>req.query\<close> with its four parameters, each given once or not at all: a parameter is
  \<open>undefined\<close> (\<open>None\<close>) or a string.
\<close>

record request =
  q_param :: "string option"
  type_param :: "string option"
  category_param :: "string option"
  limit_param :: "string option"

datatype body =
  ErrorBody (error: string) (message: string)
| SearchBody (success: bool) (query_field: string) (count: nat) (data: "result_row list")
| AdvancedBody (success: bool) (query_field: string) (type_field: string) (category_field: string)
    (count: nat) (data: "result_row list")

record response =
  status :: nat
  body :: body

text \<open>
  A handler awaits its \<open>db.all\<close> calls one after the other, and the first one that
  throws ends the \<open>try\<close> block. An action takes the list of the queries sent so far and
  returns its outcome with the list extended.
\<close>

type_synonym 'a action = "query list \<Rightarrow> (dberror + 'a) \<times> query list"

definition done_with :: "'a \<Rightarrow> 'a action" where
  "done_with x sent = (Inr x, sent)"

definition and_then :: "'a action \<Rightarrow> ('a \<Rightarrow> 'b action) \<Rightarrow> 'b action" where
  "and_then m f sent =
     (case m sent of
        (Inl e, sent') \<Rightarrow> (Inl e, sent')
      | (Inr x, sent') \<Rightarrow> f x sent')"

definition await_all ::
  "(query \<Rightarrow> dberror + result_row list) \<Rightarrow> statement \<Rightarrow> string list \<Rightarrow> result_row list action"
where
  "await_all db sql params sent = (db (sql, params), sent @ [(sql, params)])"

definition invalid_query :: response where
  "invalid_query =
     \<lparr>status = 400,
      body = ErrorBody ''Invalid search query''
               ''Search query must be at least 2 characters long''\<rparr>"

definition invalid_type :: response where
  "invalid_type =
     \<lparr>status = 400,
      body = ErrorBody ''Invalid type filter''
               ''Type must be one of: profile, skill, project, work''\<rparr>"

definition internal_error :: "string \<Rightarrow> response" where
  "internal_error msg = \<lparr>status = 500, body = ErrorBody ''Internal server error'' msg\<rparr>"

section \<open>\<open>GET /api/search\<close>\<close>

text \<open>The comparator handed to \<open>sort\<close>; \<open>query\<close> is the parameter as received.\<close>

definition comparator :: "string \<Rightarrow> result_row \<Rightarrow> result_row \<Rightarrow> int" where
  "comparator query a b =
     (let aExact = (toLowerCase (title a) = toLowerCase query);
          bExact = (toLowerCase (title b) = toLowerCase query)
      in if aExact \<and> \<not> bExact then - 1
         else if \<not> aExact \<and> bExact then 1
         else indexOf (toLowerCase (title a)) (toLowerCase query)
              - indexOf (toLowerCase (title b)) (toLowerCase query))"

text \<open>The four queries of the basic search and the array \<open>allResults\<close> before it is sorted.\<close>

definition search_all :: "(query \<Rightarrow> dberror + result_row list) \<Rightarrow> string \<Rightarrow> result_row list action" where
  "search_all db searchTerm =
     and_then (await_all db SelectProfile [searchTerm, searchTerm, searchTerm]) (\<lambda>profileResults.
     and_then (await_all db (SelectSkills False) [searchTerm, searchTerm]) (\<lambda>skillResults.
     and_then (await_all db SelectProjects [searchTerm, searchTerm]) (\<lambda>projectResults.
     and_then (await_all db SelectWork [searchTerm, searchTerm, searchTerm]) (\<lambda>workResults.
     done_with (profileResults @ skillResults @ projectResults @ workResults)))))"

text \<open>The handler: the response, and the queries it sent.\<close>

definition search :: "(query \<Rightarrow> dberror + result_row list) \<Rightarrow> request \<Rightarrow> response \<times> query list" where
  "search db req =
     (case q_param req of
        None \<Rightarrow> (invalid_query, [])
      | Some query \<Rightarrow>
          if query = [] \<or> length (trim query) < 2 then (invalid_query, [])
          else
            let searchTerm = ''%'' @ trim query @ ''%''
            in case and_then (search_all db searchTerm)
                      (\<lambda>allResults. done_with (js_sort (comparator query) allResults)) [] of
                 (Inl e, sent) \<Rightarrow> (internal_error ''Failed to perform search'', sent)
               | (Inr allResults, sent) \<Rightarrow>
                   (\<lparr>status = 200,
                     body = SearchBody True (trim query) (length allResults) allResults\<rparr>, sent))"

section \<open>\<open>GET /api/search/advanced\<close>\<close>

text \<open>
  One guarded branch of the advanced search: when no type is given or the type is
  \<open>t\<close>, the query is sent and its rows are pushed onto \<open>results\<close>.
\<close>

definition branch ::
  "(query \<Rightarrow> dberror + result_row list) \<Rightarrow> string option \<Rightarrow> string \<Rightarrow> statement \<Rightarrow> string list
     \<Rightarrow> result_row list \<Rightarrow> result_row list action"
where
  "branch db type t sql params results =
     (if \<not> truthy type \<or> type = Some t
      then and_then (await_all db sql params) (\<lambda>rows. done_with (results @ rows))
      else done_with results)"

definition advanced_all ::
  "(query \<Rightarrow> dberror + result_row list) \<Rightarrow> string option \<Rightarrow> string option \<Rightarrow> string
     \<Rightarrow> result_row list action"
where
  "advanced_all db type categ searchTerm =
     and_then (branch db type ''profile'' SelectProfile [searchTerm, searchTerm, searchTerm] [])
       (\<lambda>results.
     and_then (branch db type ''skill'' (SelectSkills (truthy categ))
                 (if truthy categ then [searchTerm, searchTerm, the categ]
                  else [searchTerm, searchTerm]) results)
       (\<lambda>results.
     and_then (branch db type ''project'' SelectProjects [searchTerm, searchTerm] results)
       (\<lambda>results.
     branch db type ''work'' SelectWork [searchTerm, searchTerm, searchTerm] results)))"

text \<open>\<open>limit = 20\<close> in the destructuring: the default stands in for \<open>undefined\<close> only.\<close>

definition limit_argument :: "request \<Rightarrow> string" where
  "limit_argument req = (case limit_param req of None \<Rightarrow> ''20'' | Some l \<Rightarrow> l)"

definition or_all :: "string option \<Rightarrow> string" where
  "or_all v = (if truthy v then the v else ''all'')"

definition advanced :: "(query \<Rightarrow> dberror + result_row list) \<Rightarrow> request \<Rightarrow> response \<times> query list" where
  "advanced db req =
     (case q_param req of
        None \<Rightarrow> (invalid_query, [])
      | Some query \<Rightarrow>
          if query = [] \<or> length (trim query) < 2 then (invalid_query, [])
          else
            let searchTerm = ''%'' @ trim query @ ''%'';
                type = type_param req;
                categ = category_param req
            in if truthy type \<and> the type \<notin> set [''profile'', ''skill'', ''project'', ''work'']
               then (invalid_type, [])
               else
                 case and_then (advanced_all db type categ searchTerm)
                        (\<lambda>results. done_with (slice0 results (parseInt (limit_argument req)))) [] of
                   (Inl e, sent) \<Rightarrow> (internal_error ''Failed to perform advanced search'', sent)
                 | (Inr results, sent) \<Rightarrow>
                     (\<lparr>status = 200,
                       body = AdvancedBody True (trim query) (or_all type) (or_all categ)
                                (length results) results\<rparr>, sent))"

section \<open>An engine to run examples on\<close>

text \<open>
  One possible server: \<open>LIKE\<close> with the wildcards \<open>%\<close> and \<open>_\<close> and \<open>=\<close> both compare
  without regard to case, and \<open>||\<close> concatenates. The statements about the handlers hold
  for every engine; this one evaluates them on concrete tables.
\<close>

fun like_match :: "string \<Rightarrow> string \<Rightarrow> bool" where
  "like_match [] [] = True"
| "like_match (c # s) [] = False"
| "like_match [] (p # ps) = (p = CHR ''%'' \<and> like_match [] ps)"
| "like_match (c # s) (p # ps) =
     (if p = CHR ''%'' then like_match (c # s) ps \<or> like_match s (p # ps)
      else (p = CHR ''_'' \<or> lower_char p = lower_char c) \<and> like_match s ps)"

fun concat_pipes :: "sqlval \<Rightarrow> sqlval \<Rightarrow> sqlval" where
  "concat_pipes (Text a) (Text b) = Text (a @ b)"
| "concat_pipes _ _ = Null"

definition ci_engine :: engine where
  "ci_engine =
     \<lparr>like = like_match, str_eq = (\<lambda>a b. toLowerCase a = toLowerCase b), pipes = concat_pipes\<rparr>"

section \<open>Notions the statements use\<close>

text \<open>The entity type a statement reads: the table after its \<open>FROM\<close>.\<close>

definition entity_of :: "statement \<Rightarrow> string" where
  "entity_of s =
     (case s of
        SelectProfile \<Rightarrow> ''profile''
      | SelectSkills _ \<Rightarrow> ''skill''
      | SelectProjects \<Rightarrow> ''project''
      | SelectWork \<Rightarrow> ''work'')"

text \<open>The four queries of the basic search for a pattern, in the order they are sent.\<close>

definition search_queries :: "string \<Rightarrow> query list" where
  "search_queries pat =
     [(SelectProfile, [pat, pat, pat]), (SelectSkills False, [pat, pat]),
      (SelectProjects, [pat, pat]), (SelectWork, [pat, pat, pat])]"

text \<open>
  The rows a query returned (none when it failed), and the merged sequence of a list of
  queries: their rows one after the other, in the order of the queries, unsorted.
\<close>

definition rows_of :: "(query \<Rightarrow> dberror + result_row list) \<Rightarrow> query \<Rightarrow> result_row list" where
  "rows_of db qry = (case db qry of Inl e \<Rightarrow> [] | Inr rows \<Rightarrow> rows)"

definition merged :: "(query \<Rightarrow> dberror + result_row list) \<Rightarrow> query list \<Rightarrow> result_row list" where
  "merged db sent = concat (map (rows_of db) sent)"

text \<open>Every query of the list was answered with rows.\<close>

definition answered :: "(query \<Rightarrow> dberror + result_row list) \<Rightarrow> query list \<Rightarrow> bool" where
  "answered db sent = list_all (\<lambda>qry. \<not> isl (db qry)) sent"

text \<open>
  The ranking in words: the title equals the query without regard to case; the position
  of the lowercased query in the lowercased title; and \<open>a\<close> ranks before \<open>b\<close> when \<open>a\<close> is
  an exact match and \<open>b\<close> is not, or they agree on that and the position in \<open>a\<close> is smaller.
\<close>

definition exact_match :: "string \<Rightarrow> result_row \<Rightarrow> bool" where
  "exact_match query a = (toLowerCase (title a) = toLowerCase query)"

definition position :: "string \<Rightarrow> result_row \<Rightarrow> int" where
  "position query a = indexOf (toLowerCase (title a)) (toLowerCase query)"


text \<open>A result row resolves in a store: its id is the id of a row of the table its type names.\<close>

definition resolves :: "store \<Rightarrow> result_row \<Rightarrow> bool" where
  "resolves st r =
     ((rtype r = ''profile'' \<and> rid r \<in> profile_id ` set (profile st))
      \<or> (rtype r = ''skill'' \<and> rid r \<in> skill_id ` set (skills st))
      \<or> (rtype r = ''project'' \<and> rid r \<in> project_id ` set (projects st))
      \<or> (rtype r = ''work'' \<and> rid r \<in> work_id ` set (work_experience st)))"

text \<open>Tables and requests for the examples.\<close>

definition example_store :: store where
  "example_store =
     \<lparr>profile = [\<lparr>profile_id = 1, profile_name = ''Joshua'', profile_email = ''joshua@example.com'',
                  profile_education = Some ''Computer Science''\<rparr>],
      skills = [\<lparr>skill_id = 1, skill_name = ''React'', skill_proficiency = Some 5,
                 skill_category = Some ''Frontend''\<rparr>,
                \<lparr>skill_id = 2, skill_name = ''Express'', skill_proficiency = Some 4,
                 skill_category = Some ''Backend''\<rparr>],
      projects = [\<lparr>project_id = 1, project_title = ''React Native'', project_description = None\<rparr>,
                  \<lparr>project_id = 2, project_title = ''React'',
                   project_description = Some ''A user interface library''\<rparr>],
      work_experience = [\<lparr>work_id = 1, work_company = ''Acme'', work_position = ''Backend Developer'',
                          work_description = Some ''Express and React services''\<rparr>]\<rparr>"

definition example_server :: server where
  "example_server = \<lparr>server_engine = ci_engine, server_store = example_store, server_up = True\<rparr>"

definition example_db :: "query \<Rightarrow> dberror + result_row list" where
  "example_db = db_all (Some example_server)"

definition request :: "string \<Rightarrow> string option \<Rightarrow> string option \<Rightarrow> string option \<Rightarrow> request" where
  "request s t c l = \<lparr>q_param = Some s, type_param = t, category_param = c, limit_param = l\<rparr>"

section \<open>The calls of \<open>db.all\<close> and the rows they give\<close>

lemma sent_branch:
  "branch db type t sql params results sent =
     (if \<not> truthy type \<or> type = Some t
      then (case db (sql, params) of
              Inl e \<Rightarrow> (Inl e, sent @ [(sql, params)])
            | Inr rows \<Rightarrow> (Inr (results @ rows), sent @ [(sql, params)]))
      else (Inr results, sent))"
  by (simp add: branch_def and_then_def await_all_def done_with_def split: sum.splits)

lemma branch_rows:
  assumes "branch db type t sql params results sent = (Inr results', sent')"
  shows "\<exists>new. sent' = sent @ new \<and> results' = results @ merged db new"
  using assms
  by (auto simp: sent_branch merged_def rows_of_def split: if_splits sum.splits)

lemma branch_failed:
  assumes "branch db type t sql params results sent = (Inl e, sent')"
  shows "\<not> answered db sent'"
  using assms
  by (auto simp: sent_branch answered_def split: if_splits sum.splits)

lemma advanced_all_rows:
  assumes "advanced_all db type c pat [] = (Inr results, sent)"
  shows "results = merged db sent"
proof -
  from assms obtain r1 s1 r2 s2 r3 s3 where
    b1: "branch db type ''profile'' SelectProfile [pat, pat, pat] [] [] = (Inr r1, s1)" and
    b2: "branch db type ''skill'' (SelectSkills (truthy c))
           (if truthy c then [pat, pat, the c] else [pat, pat]) r1 s1 = (Inr r2, s2)" and
    b3: "branch db type ''project'' SelectProjects [pat, pat] r2 s2 = (Inr r3, s3)" and
    b4: "branch db type ''work'' SelectWork [pat, pat, pat] r3 s3 = (Inr results, sent)"
    by (auto simp: advanced_all_def and_then_def split: sum.splits prod.splits)
  from branch_rows[OF b1] branch_rows[OF b2] branch_rows[OF b3] branch_rows[OF b4]
  show ?thesis by (auto simp: merged_def)
qed

lemma advanced_all_failed:
  assumes "advanced_all db type c pat [] = (Inl e, sent)"
  shows "\<not> answered db sent"
  using assms
  by (auto simp: advanced_all_def and_then_def split: sum.splits prod.splits dest: branch_failed)

lemma advanced_all_one:
  assumes "t \<in> {''profile'', ''skill'', ''project'', ''work''}"
  shows "map (entity_of \<circ> fst) (snd (advanced_all db (Some t) c pat [])) = [t]"
  using assms
  by (auto simp: advanced_all_def sent_branch and_then_def truthy_def entity_of_def
           split: sum.splits)

lemma advanced_all_four:
  assumes "advanced_all db type c pat [] = (Inr results, sent)" "\<not> truthy type"
  shows "map (entity_of \<circ> fst) sent = [''profile'', ''skill'', ''project'', ''work'']"
  using assms
  by (auto simp: advanced_all_def sent_branch and_then_def entity_of_def split: sum.splits)

lemma trimmed_nonempty: "2 \<le> length (trim query) \<Longrightarrow> query \<noteq> []"
  by (auto simp: trim_def)

lemma advanced_sent:
  assumes "q_param req = Some query" "2 \<le> length (trim query)"
    and "\<not> truthy (type_param req)
         \<or> the (type_param req) \<in> {''profile'', ''skill'', ''project'', ''work''}"
  shows "snd (advanced db req) =
         snd (advanced_all db (type_param req) (category_param req) (''%'' @ trim query @ ''%'') [])"
  using assms trimmed_nonempty[OF assms(2)]
  by (auto simp: advanced_def Let_def and_then_def done_with_def split: sum.splits prod.splits)

lemma advanced_ok:
  assumes "status (fst (advanced db req)) = 200"
  shows "\<exists>query. q_param req = Some query \<and> 2 \<le> length (trim query)
           \<and> advanced_all db (type_param req) (category_param req) (''%'' @ trim query @ ''%'') []
               = (Inr (merged db (snd (advanced db req))), snd (advanced db req))
           \<and> fst (advanced db req) =
               \<lparr>status = 200,
                body = AdvancedBody True (trim query) (or_all (type_param req))
                         (or_all (category_param req))
                         (length (slice0 (merged db (snd (advanced db req)))
                            (parseInt (limit_argument req))))
                         (slice0 (merged db (snd (advanced db req)))
                            (parseInt (limit_argument req)))\<rparr>"
proof -
  from assms obtain query where q: "q_param req = Some query"
    by (cases "q_param req") (auto simp: advanced_def invalid_query_def)
  from assms q have len: "2 \<le> length (trim query)" and ne: "query \<noteq> []"
    by (auto simp: advanced_def invalid_query_def split: if_splits)
  let ?pat = "''%'' @ trim query @ ''%''"
  from assms q len ne
  have ty: "\<not> (truthy (type_param req)
              \<and> the (type_param req) \<notin> set [''profile'', ''skill'', ''project'', ''work''])"
    by (auto simp: advanced_def invalid_type_def Let_def split: if_splits)
  obtain out sent
    where run: "advanced_all db (type_param req) (category_param req) ?pat [] = (out, sent)"
    by (cases "advanced_all db (type_param req) (category_param req) ?pat []") auto
  show ?thesis
  proof (cases out)
    case (Inl e)
    with run q len ne ty have "status (fst (advanced db req)) = 500"
      by (auto simp: advanced_def Let_def and_then_def internal_error_def)
    with assms show ?thesis by simp
  next
    case (Inr results)
    with run have res: "results = merged db sent" using advanced_all_rows by simp
    from Inr run q len ne ty have
      "advanced db req =
         (\<lparr>status = 200,
           body = AdvancedBody True (trim query) (or_all (type_param req))
                    (or_all (category_param req))
                    (length (slice0 results (parseInt (limit_argument req))))
                    (slice0 results (parseInt (limit_argument req)))\<rparr>, sent)"
      by (auto simp: advanced_def Let_def and_then_def done_with_def)
    with q len run Inr res show ?thesis by simp
  qed
qed

lemma advanced_answered:
  assumes "q_param req = Some query" "2 \<le> length (trim query)"
    and "\<not> truthy (type_param req)
         \<or> the (type_param req) \<in> {''profile'', ''skill'', ''project'', ''work''}"
    and "answered db (snd (advanced db req))"
  shows "status (fst (advanced db req)) = 200"
proof -
  let ?run = "advanced_all db (type_param req) (category_param req) (''%'' @ trim query @ ''%'') []"
  have sent: "snd (advanced db req) = snd ?run"
    using assms(1-3) by (rule advanced_sent)
  obtain out s where run: "?run = (out, s)" by (cases ?run) auto
  show ?thesis
  proof (cases out)
    case (Inl e)
    with run have "\<not> answered db s" using advanced_all_failed by simp
    with sent run assms(4) show ?thesis by simp
  next
    case (Inr results)
    with run assms(1-3) trimmed_nonempty[OF assms(2)] show ?thesis
      by (auto simp: advanced_def Let_def and_then_def done_with_def)
  qed
qed

lemma search_all_rows:
  "search_all db pat [] = (Inr results, sent) \<longleftrightarrow>
     (\<exists>P S J W. db (SelectProfile, [pat, pat, pat]) = Inr P
        \<and> db (SelectSkills False, [pat, pat]) = Inr S
        \<and> db (SelectProjects, [pat, pat]) = Inr J
        \<and> db (SelectWork, [pat, pat, pat]) = Inr W
        \<and> results = P @ S @ J @ W \<and> sent = search_queries pat)"
  by (auto simp: search_all_def and_then_def await_all_def done_with_def search_queries_def
           split: sum.splits)

lemma search_all_sent: "set (snd (search_all db pat [])) \<subseteq> set (search_queries pat)"
  by (auto simp: search_all_def and_then_def await_all_def done_with_def search_queries_def
           split: sum.splits)

lemma merged_search_queries:
  assumes "db (SelectProfile, [pat, pat, pat]) = Inr P"
    "db (SelectSkills False, [pat, pat]) = Inr S"
    "db (SelectProjects, [pat, pat]) = Inr J"
    "db (SelectWork, [pat, pat, pat]) = Inr W"
  shows "merged db (search_queries pat) = P @ S @ J @ W"
  using assms by (simp add: merged_def rows_of_def search_queries_def)

section \<open>Truncation\<close>

lemma slice0_nonneg: "0 \<le> N \<Longrightarrow> slice0 xs (Some N) = take (nat N) xs"
  by (auto simp: slice0_def Let_def min_def)

lemma slice0_neg: "N < 0 \<Longrightarrow> slice0 xs (Some N) = take (length xs - nat (- N)) xs"
  by (auto simp: slice0_def Let_def max_def nat_diff_distrib' intro: arg_cong2[where f=take])

lemma slice0_NaN: "slice0 xs None = []"
  by (simp add: slice0_def)

lemma set_slice0: "set (slice0 xs e) \<subseteq> set xs"
  by (auto simp: slice0_def Let_def dest: in_set_takeD)

lemma parseInt_20: "parseInt ''20'' = Some 20"
  by (simp add: parseInt_def is_space_def is_digit_def digit_value_def digits_value_def Let_def)

lemma parseInt_1: "parseInt ''1'' = Some 1"
  by (simp add: parseInt_def is_space_def is_digit_def digit_value_def digits_value_def Let_def)

section \<open>The sort\<close>





lemma mset_insert_sorted: "mset (insert_sorted cmp x xs) = add_mset x (mset xs)"
  by (induction xs) auto

lemma mset_js_sort: "mset (js_sort cmp xs) = mset xs"
  by (induction xs) (auto simp: mset_insert_sorted)

lemma length_js_sort: "length (js_sort cmp xs) = length xs"
  using mset_js_sort[of cmp xs] by (metis size_mset)

lemma set_js_sort: "set (js_sort cmp xs) = set xs"
  using mset_js_sort[of cmp xs] by (metis set_mset_mset)





lemma search_ok:
  assumes "status (fst (search db req)) = 200"
  shows "\<exists>query. q_param req = Some query \<and> 2 \<le> length (trim query)
           \<and> search_all db (''%'' @ trim query @ ''%'') []
               = (Inr (merged db (snd (search db req))), snd (search db req))
           \<and> fst (search db req) =
               \<lparr>status = 200,
                body = SearchBody True (trim query) (length (merged db (snd (search db req))))
                         (js_sort (comparator query) (merged db (snd (search db req))))\<rparr>"
proof -
  from assms obtain query where q: "q_param req = Some query"
    by (cases "q_param req") (auto simp: search_def invalid_query_def)
  from assms q have len: "2 \<le> length (trim query)" and ne: "query \<noteq> []"
    by (auto simp: search_def invalid_query_def split: if_splits)
  let ?pat = "''%'' @ trim query @ ''%''"
  obtain out sent where run: "search_all db ?pat [] = (out, sent)"
    by (cases "search_all db ?pat []") auto
  show ?thesis
  proof (cases out)
    case (Inl e)
    with run q len ne have "status (fst (search db req)) = 500"
      by (auto simp: search_def Let_def and_then_def internal_error_def)
    with assms show ?thesis by simp
  next
    case (Inr results)
    with run have res: "results = merged db sent"
      using merged_search_queries[of db ?pat] by (auto simp: search_all_rows)
    from Inr run q len ne have
      "search db req =
         (\<lparr>status = 200,
           body = SearchBody True (trim query) (length results)
                    (js_sort (comparator query) results)\<rparr>, sent)"
      by (auto simp: search_def Let_def and_then_def done_with_def length_js_sort)
    with q len run Inr res show ?thesis by simp
  qed
qed

section \<open>\<open>indexOf\<close> and \<open>trim\<close>\<close>

text \<open>
  \<open>indexOf\<close> is \<open>-1\<close> exactly when the pattern occurs nowhere, and otherwise the position
  of the first occurrence.
\<close>

lemma indexOf_from_cases:
  "(indexOf_from k s pat = - 1 \<and> (\<forall>j\<le>length s. \<not> prefix pat (drop j s)))
   \<or> (\<exists>i\<le>length s. indexOf_from k s pat = int (k + i) \<and> prefix pat (drop i s)
         \<and> (\<forall>j<i. \<not> prefix pat (drop j s)))"
proof (induction s arbitrary: k)
  case Nil
  then show ?case by auto
next
  case (Cons c t)
  show ?case
  proof (cases "prefix pat (c # t)")
    case True
    then show ?thesis by auto
  next
    case False
    from Cons.IH[of "Suc k"] show ?thesis
    proof
      assume a: "indexOf_from (Suc k) t pat = - 1 \<and> (\<forall>j\<le>length t. \<not> prefix pat (drop j t))"
      have "\<forall>j\<le>length (c # t). \<not> prefix pat (drop j (c # t))"
      proof (intro allI impI)
        fix j
        assume "j \<le> length (c # t)"
        then show "\<not> prefix pat (drop j (c # t))"
          using a False by (cases j) auto
      qed
      with a False show ?thesis by simp
    next
      assume "\<exists>i\<le>length t. indexOf_from (Suc k) t pat = int (Suc k + i)
                \<and> prefix pat (drop i t) \<and> (\<forall>j<i. \<not> prefix pat (drop j t))"
      then obtain i where i: "i \<le> length t" "indexOf_from (Suc k) t pat = int (Suc k + i)"
        "prefix pat (drop i t)" "\<forall>j<i. \<not> prefix pat (drop j t)" by blast
      have "\<forall>j<Suc i. \<not> prefix pat (drop j (c # t))"
      proof (intro allI impI)
        fix j
        assume "j < Suc i"
        then show "\<not> prefix pat (drop j (c # t))"
          using i(4) False by (cases j) auto
      qed
      with i False
      have "Suc i \<le> length (c # t) \<and> indexOf_from k (c # t) pat = int (k + Suc i)
              \<and> prefix pat (drop (Suc i) (c # t))
              \<and> (\<forall>j<Suc i. \<not> prefix pat (drop j (c # t)))"
        by simp
      then show ?thesis by blast
    qed
  qed
qed

lemma indexOf_first_occurrence:
  "(indexOf s pat = - 1 \<and> (\<forall>j\<le>length s. \<not> prefix pat (drop j s)))
   \<or> (\<exists>i\<le>length s. indexOf s pat = int i \<and> prefix pat (drop i s)
         \<and> (\<forall>j<i. \<not> prefix pat (drop j s)))"
  using indexOf_from_cases[of 0 s pat] by (simp add: indexOf_def)

lemma indexOf_too_long:
  assumes "length s < length pat"
  shows "indexOf s pat = - 1"
proof -
  have "\<not> prefix pat (drop i s)" for i
    using assms by (auto dest!: prefix_length_le)
  with indexOf_first_occurrence[of s pat] show ?thesis by blast
qed

lemma length_dropWhile_same: "length (dropWhile P xs) = length xs \<Longrightarrow> dropWhile P xs = xs"
proof (cases xs)
  case Nil
  then show ?thesis by simp
next
  case (Cons x t)
  assume a: "length (dropWhile P xs) = length xs"
  have "length (dropWhile P t) \<le> length t" by (rule length_dropWhile_le)
  with a Cons show ?thesis by (auto split: if_splits)
qed

lemma length_trim_le: "length (trim s) \<le> length s"
  unfolding trim_def
  by (metis length_dropWhile_le length_rev order_trans)

lemma length_trim_same:
  assumes "length (trim s) = length s"
  shows "trim s = s"
proof -
  let ?a = "dropWhile is_space s"
  have 1: "length (dropWhile is_space (rev ?a)) \<le> length ?a"
    by (metis length_dropWhile_le length_rev)
  have 2: "length ?a \<le> length s" by (rule length_dropWhile_le)
  from assms have 3: "length (dropWhile is_space (rev ?a)) = length s" by (simp add: trim_def)
  from 1 2 3 have a: "length ?a = length s"
    and b: "length (dropWhile is_space (rev ?a)) = length (rev ?a)" by simp_all
  from a have "?a = s" by (rule length_dropWhile_same)
  moreover from b have "dropWhile is_space (rev ?a) = rev ?a" by (rule length_dropWhile_same)
  ultimately show ?thesis by (simp add: trim_def)
qed

lemma length_toLowerCase: "length (toLowerCase s) = length s"
  by (simp add: toLowerCase_def)

lemma trimmed_title_not_exact:
  assumes "trim query \<noteq> query" "toLowerCase (title a) = toLowerCase (trim query)"
  shows "\<not> exact_match query a" and "position query a = - 1"
proof -
  have lt: "length (trim query) < length query"
    using assms(1) length_trim_le[of query] length_trim_same[of query] by linarith
  have len: "length (toLowerCase (title a)) = length (trim query)"
    using assms(2) by (simp add: length_toLowerCase)
  show "\<not> exact_match query a"
  proof
    assume "exact_match query a"
    then have "length (toLowerCase (title a)) = length (toLowerCase query)"
      by (simp add: exact_match_def)
    with len lt show False by (simp add: length_toLowerCase)
  qed
  show "position query a = - 1"
    unfolding position_def using len lt
    by (intro indexOf_too_long) (simp add: length_toLowerCase)
qed

section \<open>Rows and the store\<close>

lemma run_select_resolves:
  assumes "run_select eng st qry = Inr rows" "r \<in> set rows"
  shows "resolves st r"
  using assms
  by (induction eng st qry rule: run_select.induct)
     (auto simp: resolves_def profile_select_def skill_select_def project_select_def
                 work_select_def)

lemma merged_resolves:
  assumes "r \<in> set (merged (db_all (Some srv)) sent)"
  shows "resolves (server_store srv) r"
proof -
  from assms obtain qry where "r \<in> set (rows_of (db_all (Some srv)) qry)"
    by (auto simp: merged_def)
  then have "\<exists>rows. run_select (server_engine srv) (server_store srv) qry = Inr rows
                  \<and> r \<in> set rows"
    by (cases "run_select (server_engine srv) (server_store srv) qry")
       (auto simp: rows_of_def db_all_def split: if_splits)
  then show ?thesis using run_select_resolves by blast
qed

lemma resolves_type: "resolves st r \<Longrightarrow> rtype r \<in> {''profile'', ''skill'', ''project'', ''work''}"
  by (auto simp: resolves_def)

section \<open>Validation\<close>

text \<open>
  C3. On either endpoint, a request whose \<open>q\<close> is missing, or whose \<open>q\<close> has fewer than
  two characters once trimmed, is answered 400 with an \<open>{error, message}\<close> body, and no
  call of \<open>db.all\<close> is made: the list of queries sent is empty.
\<close>

theorem short_query_rejected:
  assumes "q_param req = None \<or> (\<exists>s. q_param req = Some s \<and> length (trim s) < 2)"
  shows "search db req =
           (\<lparr>status = 400,
             body = ErrorBody ''Invalid search query''
                      ''Search query must be at least 2 characters long''\<rparr>, [])
         \<and> advanced db req =
           (\<lparr>status = 400,
             body = ErrorBody ''Invalid search query''
                      ''Search query must be at least 2 characters long''\<rparr>, [])"
  using assms by (auto simp: search_def advanced_def invalid_query_def)

text \<open>The query \<open>" a "\<close> has one character once trimmed.\<close>

theorem short_query_rejected_witness:
  "length (trim '' a '') < 2
   \<and> search example_db (request '' a '' None None None) =
       (\<lparr>status = 400,
         body = ErrorBody ''Invalid search query''
                  ''Search query must be at least 2 characters long''\<rparr>, [])
   \<and> advanced example_db (request '' a '' None None None) =
       (\<lparr>status = 400,
         body = ErrorBody ''Invalid search query''
                  ''Search query must be at least 2 characters long''\<rparr>, [])"
proof -
  have short: "length (trim '' a '') < 2"
    by (simp add: trim_def is_space_def)
  then have "q_param (request '' a '' None None None) = None
             \<or> (\<exists>s. q_param (request '' a '' None None None) = Some s \<and> length (trim s) < 2)"
    by (simp add: request_def)
  from short_query_rejected[OF this, of example_db] short show ?thesis by simp
qed

lemma advanced_all_empty_type:
  "advanced_all db (Some []) c pat = advanced_all db None c pat"
  by (simp add: advanced_all_def branch_def truthy_def)

lemma advanced_empty_type:
  assumes "type_param req = Some []"
  shows "advanced db req = advanced db (req\<lparr>type_param := None\<rparr>)"
  using assms
  by (cases "q_param req")
     (simp_all add: advanced_def Let_def truthy_def or_all_def limit_argument_def
        advanced_all_empty_type split: prod.splits sum.splits)

text \<open>
  C6, as the code has it. For a request that passes the check of \<open>q\<close>: a \<open>type\<close> that
  is a non-empty string other than \<open>profile\<close>, \<open>skill\<close>, \<open>project\<close> and \<open>work\<close> is
  answered 400 with the message that lists the four values, and no query is sent; an
  empty \<open>type\<close> is treated as no type filter: the response and the queries sent are those
  of the same request without the parameter, so that, no call of \<open>db.all\<close> failing, the
  answer is 200 after the four queries.
\<close>

theorem invalid_type_rejected:
  assumes "q_param req = Some query" "2 \<le> length (trim query)"
  shows "(\<forall>t. type_param req = Some t \<and> t \<noteq> []
              \<and> t \<notin> {''profile'', ''skill'', ''project'', ''work''} \<longrightarrow>
            advanced db req =
              (\<lparr>status = 400,
                body = ErrorBody ''Invalid type filter''
                         ''Type must be one of: profile, skill, project, work''\<rparr>, []))
       \<and> (type_param req = Some [] \<longrightarrow>
            advanced db req = advanced db (req\<lparr>type_param := None\<rparr>)
            \<and> (answered db (snd (advanced db req)) \<longrightarrow>
                 status (fst (advanced db req)) = 200
                 \<and> map (entity_of \<circ> fst) (snd (advanced db req))
                     = [''profile'', ''skill'', ''project'', ''work'']))"
proof (intro conjI allI impI)
  fix t
  assume "type_param req = Some t \<and> t \<noteq> []
            \<and> t \<notin> {''profile'', ''skill'', ''project'', ''work''}"
  then show "advanced db req =
              (\<lparr>status = 400,
                body = ErrorBody ''Invalid type filter''
                         ''Type must be one of: profile, skill, project, work''\<rparr>, [])"
    using assms trimmed_nonempty[OF assms(2)]
    by (simp add: advanced_def invalid_type_def truthy_def Let_def)
next
  assume "type_param req = Some []"
  then show "advanced db req = advanced db (req\<lparr>type_param := None\<rparr>)"
    by (rule advanced_empty_type)
next
  assume e: "type_param req = Some []" and a: "answered db (snd (advanced db req))"
  from e have falsy: "\<not> truthy (type_param req)" by (simp add: truthy_def)
  then show ok: "status (fst (advanced db req)) = 200"
    using advanced_answered[OF assms, of db] a by simp
  from advanced_ok[OF ok] assms(1)
  have "advanced_all db (type_param req) (category_param req) (''%'' @ trim query @ ''%'') []
          = (Inr (merged db (snd (advanced db req))), snd (advanced db req))"
    by auto
  from advanced_all_four[OF this falsy]
  show "map (entity_of \<circ> fst) (snd (advanced db req))
          = [''profile'', ''skill'', ''project'', ''work'']" .
qed

text \<open>
  On the example tables \<open>type=bogus\<close> is refused, and \<open>type=\<close> gets the answer of the
  request with no type, after the four queries.
\<close>

theorem invalid_type_rejected_witness:
  "advanced example_db (request ''React'' (Some ''bogus'') None None) =
     (\<lparr>status = 400,
       body = ErrorBody ''Invalid type filter''
                ''Type must be one of: profile, skill, project, work''\<rparr>, [])
   \<and> advanced example_db (request ''React'' (Some '''') None None)
       = advanced example_db (request ''React'' None None None)
   \<and> answered example_db (snd (advanced example_db (request ''React'' (Some '''') None None)))
   \<and> status (fst (advanced example_db (request ''React'' (Some '''') None None))) = 200
   \<and> map (entity_of \<circ> fst) (snd (advanced example_db (request ''React'' (Some '''') None None)))
       = [''profile'', ''skill'', ''project'', ''work'']"
proof -
  have len: "2 \<le> length (trim ''React'')"
    by (simp add: trim_def is_space_def)
  have ans: "answered example_db
               (snd (advanced example_db (request ''React'' (Some '''') None None)))"
    by code_simp
  from invalid_type_rejected[of "request ''React'' (Some ''bogus'') None None" "''React''"
         example_db, OF _ len]
  have bogus: "advanced example_db (request ''React'' (Some ''bogus'') None None) =
     (\<lparr>status = 400,
       body = ErrorBody ''Invalid type filter''
                ''Type must be one of: profile, skill, project, work''\<rparr>, [])"
    by (simp add: request_def)
  let ?R = "request ''React'' (Some '''') None None"
  have tp: "type_param ?R = Some []"
    by (simp add: request_def)
  have upd: "?R\<lparr>type_param := None\<rparr> = request ''React'' None None None"
    by (simp add: request_def)
  have q: "q_param ?R = Some ''React''"
    by (simp add: request_def)
  from invalid_type_rejected[OF q len, of example_db] tp
  have same: "advanced example_db ?R = advanced example_db (?R\<lparr>type_param := None\<rparr>)"
    and served: "answered example_db (snd (advanced example_db ?R)) \<longrightarrow>
                 status (fst (advanced example_db ?R)) = 200
                 \<and> map (entity_of \<circ> fst) (snd (advanced example_db ?R))
                     = [''profile'', ''skill'', ''project'', ''work'']"
    by blast+
  from same
  have same': "advanced example_db ?R = advanced example_db (request ''React'' None None None)"
    unfolding upd .
  from served ans
  have four: "status (fst (advanced example_db ?R)) = 200
              \<and> map (entity_of \<circ> fst) (snd (advanced example_db ?R))
                  = [''profile'', ''skill'', ''project'', ''work'']"
    by blast
  from bogus same' ans four show ?thesis by blast
qed

text \<open>
  C6 as it is written fails for \<open>type=\<close> with an empty value: the parameter is present
  and is none of the four values, yet the guard \<open>type && ...\<close> reads the empty string as
  no type at all, and the request is answered 200 after all four queries.
\<close>

theorem empty_type_not_rejected:
  "type_param (request ''React'' (Some '''') None None) = Some ''''
   \<and> '''' \<notin> {''profile'', ''skill'', ''project'', ''work''}
   \<and> status (fst (advanced example_db (request ''React'' (Some '''') None None))) = 200
   \<and> map (entity_of \<circ> fst) (snd (advanced example_db (request ''React'' (Some '''') None None)))
       = [''profile'', ''skill'', ''project'', ''work'']"
  by code_simp

section \<open>The type filter\<close>

text \<open>
  C4. For a request that passes the check of \<open>q\<close>: with a type filter \<open>t\<close> among
  \<open>profile\<close>, \<open>skill\<close>, \<open>project\<close>, \<open>work\<close>, exactly one query is sent, the one on the
  entity \<open>t\<close>, and none on the three others; with no type, and no call of \<open>db.all\<close>
  failing, the four queries are sent, in the order profile, skill, project, work.
\<close>

theorem type_filter_queries:
  assumes "q_param req = Some query" "2 \<le> length (trim query)"
  shows "(\<forall>t. type_param req = Some t \<and> t \<in> {''profile'', ''skill'', ''project'', ''work''}
            \<longrightarrow> map (entity_of \<circ> fst) (snd (advanced db req)) = [t])
       \<and> (type_param req = None \<and> answered db (snd (advanced db req))
            \<longrightarrow> map (entity_of \<circ> fst) (snd (advanced db req))
                  = [''profile'', ''skill'', ''project'', ''work''])"
proof (intro conjI allI impI)
  fix t
  assume t: "type_param req = Some t \<and> t \<in> {''profile'', ''skill'', ''project'', ''work''}"
  then have "snd (advanced db req) =
             snd (advanced_all db (Some t) (category_param req) (''%'' @ trim query @ ''%'') [])"
    using advanced_sent[OF assms, of db] by simp
  then show "map (entity_of \<circ> fst) (snd (advanced db req)) = [t]"
    using t advanced_all_one[of t db] by simp
next
  assume a: "type_param req = None \<and> answered db (snd (advanced db req))"
  then have none: "\<not> truthy (type_param req)" by (simp add: truthy_def)
  then have "status (fst (advanced db req)) = 200"
    using advanced_answered[OF assms, of db] a by simp
  from advanced_ok[OF this] assms(1)
  have "advanced_all db (type_param req) (category_param req) (''%'' @ trim query @ ''%'') []
          = (Inr (merged db (snd (advanced db req))), snd (advanced db req))"
    by auto
  from advanced_all_four[OF this none]
  show "map (entity_of \<circ> fst) (snd (advanced db req)) = [''profile'', ''skill'', ''project'', ''work'']" .
qed

theorem type_filter_queries_witness:
  "map (entity_of \<circ> fst) (snd (advanced example_db (request ''React'' (Some ''skill'') None None)))
     = [''skill'']
   \<and> answered example_db (snd (advanced example_db (request ''React'' None None None)))
   \<and> map (entity_of \<circ> fst) (snd (advanced example_db (request ''React'' None None None)))
       = [''profile'', ''skill'', ''project'', ''work'']"
proof -
  have len: "2 \<le> length (trim ''React'')"
    by (simp add: trim_def is_space_def)
  have ans: "answered example_db (snd (advanced example_db (request ''React'' None None None)))"
    by code_simp
  from type_filter_queries[of "request ''React'' (Some ''skill'') None None" "''React''" example_db,
         OF _ len]
  have one: "map (entity_of \<circ> fst)
               (snd (advanced example_db (request ''React'' (Some ''skill'') None None))) = [''skill'']"
    by (simp add: request_def)
  from type_filter_queries[of "request ''React'' None None None" "''React''" example_db, OF _ len] ans
  have four: "map (entity_of \<circ> fst) (snd (advanced example_db (request ''React'' None None None)))
                = [''profile'', ''skill'', ''project'', ''work'']"
    by (simp add: request_def)
  from one ans four show ?thesis by simp
qed

section \<open>Truncation of the advanced search\<close>

text \<open>
  C5, as the code has it. In a 200 response of the advanced search the data are cut out
  of the merged sequence, the rows of the queries sent in the order they were sent, with
  no sort. With no \<open>limit\<close> they are its first 20 entries; with a \<open>limit\<close> that \<open>parseInt\<close>
  reads as \<open>N \<ge> 0\<close> they are its first \<open>N\<close> entries; with a \<open>limit\<close> read as a negative
  \<open>N\<close> they are all its entries but the last \<open>-N\<close>. With \<open>limit=1\<close> and a merged sequence
  that is not empty, exactly one entry is returned.
\<close>

theorem advanced_truncates:
  assumes "status (fst (advanced db req)) = 200"
  shows "(limit_param req = None \<longrightarrow>
            data (body (fst (advanced db req))) = take 20 (merged db (snd (advanced db req))))
       \<and> (\<forall>l N. limit_param req = Some l \<and> parseInt l = Some N \<and> 0 \<le> N \<longrightarrow>
            data (body (fst (advanced db req)))
              = take (nat N) (merged db (snd (advanced db req))))
       \<and> (\<forall>l N. limit_param req = Some l \<and> parseInt l = Some N \<and> N < 0 \<longrightarrow>
            data (body (fst (advanced db req)))
              = take (length (merged db (snd (advanced db req))) - nat (- N))
                  (merged db (snd (advanced db req))))
       \<and> (limit_param req = Some ''1'' \<and> merged db (snd (advanced db req)) \<noteq> [] \<longrightarrow>
            length (data (body (fst (advanced db req)))) = 1)"
proof -
  let ?M = "merged db (snd (advanced db req))"
  from advanced_ok[OF assms]
  have d: "data (body (fst (advanced db req))) = slice0 ?M (parseInt (limit_argument req))"
    by auto
  have "limit_param req = None \<Longrightarrow> slice0 ?M (parseInt (limit_argument req)) = take 20 ?M"
    by (simp add: limit_argument_def parseInt_20 slice0_nonneg)
  moreover have "limit_param req = Some l \<Longrightarrow> parseInt l = Some N \<Longrightarrow> 0 \<le> N
      \<Longrightarrow> slice0 ?M (parseInt (limit_argument req)) = take (nat N) ?M" for l N
    by (simp add: limit_argument_def slice0_nonneg)
  moreover have "limit_param req = Some l \<Longrightarrow> parseInt l = Some N \<Longrightarrow> N < 0
      \<Longrightarrow> slice0 ?M (parseInt (limit_argument req)) = take (length ?M - nat (- N)) ?M" for l N
    by (simp add: limit_argument_def slice0_neg)
  moreover have "limit_param req = Some ''1'' \<Longrightarrow> ?M \<noteq> []
      \<Longrightarrow> length (slice0 ?M (parseInt (limit_argument req))) = 1"
    by (cases ?M) (simp_all add: limit_argument_def parseInt_1 slice0_nonneg)
  ultimately show ?thesis unfolding d by blast
qed

text \<open>With \<open>limit=2\<close>, two of the four rows that match \<open>React\<close> are returned, unsorted.\<close>

theorem advanced_truncates_witness:
  "status (fst (advanced example_db (request ''React'' None None (Some ''2'')))) = 200
   \<and> parseInt ''2'' = Some 2
   \<and> length (merged example_db (snd (advanced example_db (request ''React'' None None (Some ''2''))))) = 4
   \<and> data (body (fst (advanced example_db (request ''React'' None None (Some ''2'')))))
       = take (nat 2)
           (merged example_db (snd (advanced example_db (request ''React'' None None (Some ''2'')))))"
proof -
  have ok: "status (fst (advanced example_db (request ''React'' None None (Some ''2'')))) = 200"
    by code_simp
  have p: "parseInt ''2'' = Some 2"
    by (simp add: parseInt_def is_space_def is_digit_def digit_value_def digits_value_def Let_def)
  have four: "length (merged example_db
                 (snd (advanced example_db (request ''React'' None None (Some ''2''))))) = 4"
    by code_simp
  have l: "limit_param (request ''React'' None None (Some ''2'')) = Some ''2''"
    by (simp add: request_def)
  from advanced_truncates[OF ok] l p
  have "data (body (fst (advanced example_db (request ''React'' None None (Some ''2'')))))
       = take (nat 2)
           (merged example_db (snd (advanced example_db (request ''React'' None None (Some ''2'')))))"
    by simp
  with ok p four show ?thesis by simp
qed

text \<open>
  C5 as it is written fails for a negative limit: \<open>limit=-1\<close> is read as \<open>-1\<close>, and
  \<open>slice(0, -1)\<close> returns all the entries but the last, three of the four here, which are
  not the first \<open>-1\<close> entries of anything.
\<close>

theorem negative_limit_drops_last:
  "status (fst (advanced example_db (request ''React'' None None (Some ''-1'')))) = 200
   \<and> parseInt ''-1'' = Some (- 1)
   \<and> length (merged example_db (snd (advanced example_db (request ''React'' None None (Some ''-1''))))) = 4
   \<and> data (body (fst (advanced example_db (request ''React'' None None (Some ''-1'')))))
       = take 3 (merged example_db (snd (advanced example_db (request ''React'' None None (Some ''-1'')))))
   \<and> data (body (fst (advanced example_db (request ''React'' None None (Some ''-1'')))))
       \<noteq> take (nat (- 1))
            (merged example_db (snd (advanced example_db (request ''React'' None None (Some ''-1'')))))"
  by code_simp

text \<open>
  C10. A request that passes the checks of \<open>q\<close> and of \<open>type\<close>, whose \<open>limit\<close> is present
  and read by \<open>parseInt\<close> as \<open>NaN\<close>, and whose queries are all answered, gets a 200
  response with an empty data array and count 0, whatever rows the queries returned.
\<close>

theorem unparseable_limit_empties:
  assumes "q_param req = Some query" "2 \<le> length (trim query)"
    and "\<not> truthy (type_param req)
         \<or> the (type_param req) \<in> {''profile'', ''skill'', ''project'', ''work''}"
    and "limit_param req = Some l" "parseInt l = None"
    and "answered db (snd (advanced db req))"
  shows "fst (advanced db req) =
           \<lparr>status = 200,
            body = AdvancedBody True (trim query) (or_all (type_param req))
                     (or_all (category_param req)) 0 []\<rparr>"
proof -
  have "status (fst (advanced db req)) = 200"
    using assms(1-3,6) by (rule advanced_answered)
  from advanced_ok[OF this] assms(1,4,5) show ?thesis
    by (auto simp: limit_argument_def slice0_NaN)
qed

text \<open>Four rows match \<open>React\<close>; with \<open>limit=abc\<close> none of them is returned.\<close>

theorem unparseable_limit_empties_witness:
  "parseInt ''abc'' = None
   \<and> length (merged example_db (snd (advanced example_db (request ''React'' None None (Some ''abc''))))) = 4
   \<and> fst (advanced example_db (request ''React'' None None (Some ''abc''))) =
       \<lparr>status = 200, body = AdvancedBody True ''React'' ''all'' ''all'' 0 []\<rparr>"
proof -
  have len: "2 \<le> length (trim ''React'')"
    by (simp add: trim_def is_space_def)
  have p: "parseInt ''abc'' = None"
    by (simp add: parseInt_def is_space_def is_digit_def digit_value_def Let_def)
  have ans: "answered example_db (snd (advanced example_db (request ''React'' None None (Some ''abc''))))"
    by code_simp
  have four: "length (merged example_db
                 (snd (advanced example_db (request ''React'' None None (Some ''abc''))))) = 4"
    by code_simp
  have tr: "trim ''React'' = ''React''"
    by (simp add: trim_def is_space_def)
  from unparseable_limit_empties[of "request ''React'' None None (Some ''abc'')" "''React''"
         "''abc''" example_db, OF _ len _ _ p ans]
  have "fst (advanced example_db (request ''React'' None None (Some ''abc''))) =
       \<lparr>status = 200, body = AdvancedBody True ''React'' ''all'' ''all'' 0 []\<rparr>"
    by (simp add: request_def truthy_def or_all_def tr)
  with p four show ?thesis by simp
qed

section \<open>Merge and ranking of the basic search\<close>

text \<open>
  C7. In the basic search the sequence before the sort is the rows of the profile query,
  then those of the skills query, then those of the projects query, then those of the
  work query, each block in the order the database returned it; the data of the response
  are that sequence sorted.
\<close>

theorem search_merges_in_order:
  assumes "q_param req = Some query" "2 \<le> length (trim query)"
    and "pat = ''%'' @ trim query @ ''%''"
    and "db (SelectProfile, [pat, pat, pat]) = Inr profileResults"
    and "db (SelectSkills False, [pat, pat]) = Inr skillResults"
    and "db (SelectProjects, [pat, pat]) = Inr projectResults"
    and "db (SelectWork, [pat, pat, pat]) = Inr workResults"
  shows "search_all db pat []
           = (Inr (profileResults @ skillResults @ projectResults @ workResults),
              search_queries pat)
       \<and> map (entity_of \<circ> fst) (search_queries pat) = [''profile'', ''skill'', ''project'', ''work'']
       \<and> search db req =
           (\<lparr>status = 200,
             body = SearchBody True (trim query)
                      (length (profileResults @ skillResults @ projectResults @ workResults))
                      (js_sort (comparator query)
                         (profileResults @ skillResults @ projectResults @ workResults))\<rparr>,
            search_queries pat)"
proof -
  have run: "search_all db pat []
           = (Inr (profileResults @ skillResults @ projectResults @ workResults),
              search_queries pat)"
    using assms(4-7) by (simp add: search_all_rows)
  have ent: "map (entity_of \<circ> fst) (search_queries pat) = [''profile'', ''skill'', ''project'', ''work'']"
    by (simp add: search_queries_def entity_of_def)
  have "search db req =
           (\<lparr>status = 200,
             body = SearchBody True (trim query)
                      (length (profileResults @ skillResults @ projectResults @ workResults))
                      (js_sort (comparator query)
                         (profileResults @ skillResults @ projectResults @ workResults))\<rparr>,
            search_queries pat)"
    using assms(1,2) trimmed_nonempty[OF assms(2)] run[unfolded assms(3)] assms(3)
    by (simp add: search_def Let_def and_then_def done_with_def length_js_sort)
  with run ent show ?thesis by simp
qed

text \<open>
  For \<open>React\<close> the profile query returns nothing, the skills query one row, the projects
  query two and the work query one.
\<close>

theorem search_merges_in_order_witness:
  "search_all example_db ''%React%'' [] =
     (Inr ([] @
           [\<lparr>rtype = ''skill'', title = ''React'', description = Text ''Expert level'',
             category = Some ''Frontend'', rid = 1\<rparr>] @
           [\<lparr>rtype = ''project'', title = ''React Native'', description = Null,
             category = Some ''Project'', rid = 1\<rparr>,
            \<lparr>rtype = ''project'', title = ''React'', description = Text ''A user interface library'',
             category = Some ''Project'', rid = 2\<rparr>] @
           [\<lparr>rtype = ''work'', title = ''Backend Developer'',
             description = Text ''Acme - Express and React services'',
             category = Some ''Work Experience'', rid = 1\<rparr>]),
      search_queries ''%React%'')"
proof -
  have len: "2 \<le> length (trim ''React'')"
    by (simp add: trim_def is_space_def)
  have built: "''%React%'' = ''%'' @ trim ''React'' @ ''%''"
    by (simp add: trim_def is_space_def)
  have P: "example_db (SelectProfile, [''%React%'', ''%React%'', ''%React%'']) = Inr []"
    by code_simp
  have S: "example_db (SelectSkills False, [''%React%'', ''%React%'']) =
             Inr [\<lparr>rtype = ''skill'', title = ''React'', description = Text ''Expert level'',
                   category = Some ''Frontend'', rid = 1\<rparr>]"
    by code_simp
  have J: "example_db (SelectProjects, [''%React%'', ''%React%'']) =
             Inr [\<lparr>rtype = ''project'', title = ''React Native'', description = Null,
                   category = Some ''Project'', rid = 1\<rparr>,
                  \<lparr>rtype = ''project'', title = ''React'',
                   description = Text ''A user interface library'',
                   category = Some ''Project'', rid = 2\<rparr>]"
    by code_simp
  have W: "example_db (SelectWork, [''%React%'', ''%React%'', ''%React%'']) =
             Inr [\<lparr>rtype = ''work'', title = ''Backend Developer'',
                   description = Text ''Acme - Express and React services'',
                   category = Some ''Work Experience'', rid = 1\<rparr>]"
    by code_simp
  have q: "q_param (request ''React'' None None None) = Some ''React''"
    by (simp add: request_def)
  from search_merges_in_order[OF q len built P S J W] show ?thesis by blast
qed



text \<open>
  C9. In the basic search every query sent carries the pattern built from the trimmed
  \<open>q\<close>, and the data of a 200 response are sorted by the comparator of the untrimmed
  \<open>q\<close>. When trimming changes \<open>q\<close>, an entry whose title equals the trimmed \<open>q\<close> without
  regard to case is no exact match for the comparator: against an exact match it gets 1,
  and against any other entry the difference of the positions, its own being \<open>-1\<close>.
\<close>

theorem untrimmed_query_in_comparator:
  assumes "q_param req = Some query" "trim query \<noteq> query"
  shows "(\<forall>qry \<in> set (snd (search db req)). set (snd qry) = {''%'' @ trim query @ ''%''})
       \<and> (status (fst (search db req)) = 200 \<longrightarrow>
            data (body (fst (search db req)))
              = js_sort (comparator query) (merged db (snd (search db req))))
       \<and> (\<forall>a. toLowerCase (title a) = toLowerCase (trim query) \<longrightarrow>
            \<not> exact_match query a
            \<and> (\<forall>b. comparator query a b
                     = (if exact_match query b then 1 else - 1 - position query b)))"
proof (intro conjI ballI allI impI)
  fix qry
  assume "qry \<in> set (snd (search db req))"
  then have "qry \<in> set (search_queries (''%'' @ trim query @ ''%''))"
    using assms(1) search_all_sent[of db "''%'' @ trim query @ ''%''"]
    by (auto simp: search_def Let_def and_then_def done_with_def
             split: if_splits sum.splits prod.splits)
  then show "set (snd qry) = {''%'' @ trim query @ ''%''}"
    by (auto simp: search_queries_def)
next
  assume "status (fst (search db req)) = 200"
  from search_ok[OF this] assms(1)
  show "data (body (fst (search db req)))
          = js_sort (comparator query) (merged db (snd (search db req)))"
    by auto
next
  fix a :: result_row
  assume "toLowerCase (title a) = toLowerCase (trim query)"
  from trimmed_title_not_exact(1)[OF assms(2) this]
  show "\<not> exact_match query a" .
next
  fix a b :: result_row
  assume a: "toLowerCase (title a) = toLowerCase (trim query)"
  from trimmed_title_not_exact[OF assms(2) a]
  show "comparator query a b = (if exact_match query b then 1 else - 1 - position query b)"
    by (simp add: comparator_def exact_match_def position_def Let_def)
qed

text \<open>
  The query \<open>" React"\<close>, with a space in front: the patterns are \<open>%React%\<close>, the project
  titled \<open>React\<close> is no exact match and ties with \<open>React Native\<close>, and the rows stay in
  the order of the merge, \<open>React Native\<close> before the project \<open>React\<close>.
\<close>

theorem untrimmed_query_in_comparator_witness:
  "trim '' React'' = ''React''
   \<and> snd (search example_db (request '' React'' None None None)) = search_queries ''%React%''
   \<and> map title (data (body (fst (search example_db (request '' React'' None None None)))))
       = [''React'', ''React Native'', ''React'', ''Backend Developer'']
   \<and> comparator '' React''
        \<lparr>rtype = ''project'', title = ''React'', description = Text ''A user interface library'',
         category = Some ''Project'', rid = 2\<rparr>
        \<lparr>rtype = ''project'', title = ''React Native'', description = Null,
         category = Some ''Project'', rid = 1\<rparr> = 0"
proof -
  let ?a = "\<lparr>rtype = ''project'', title = ''React'', description = Text ''A user interface library'',
         category = Some ''Project'', rid = 2\<rparr>"
  let ?b = "\<lparr>rtype = ''project'', title = ''React Native'', description = Null,
         category = Some ''Project'', rid = 1\<rparr>"
  have tr: "trim '' React'' = ''React''"
    by (simp add: trim_def is_space_def)
  then have ne: "trim '' React'' \<noteq> '' React''" by simp
  have q: "q_param (request '' React'' None None None) = Some '' React''"
    by (simp add: request_def)
  have sent: "snd (search example_db (request '' React'' None None None)) = search_queries ''%React%''"
    by code_simp
  have titles: "map title (data (body (fst (search example_db (request '' React'' None None None)))))
       = [''React'', ''React Native'', ''React'', ''Backend Developer'']"
    by code_simp
  have low: "toLowerCase (title ?a) = toLowerCase (trim '' React'')"
    by (simp add: tr)
  have nb: "\<not> exact_match '' React'' ?b" "position '' React'' ?b = - 1"
    by code_simp+
  from untrimmed_query_in_comparator[OF q ne, of example_db] low
  have "comparator '' React'' ?a ?b
          = (if exact_match '' React'' ?b then 1 else - 1 - position '' React'' ?b)"
    by blast
  with nb have "comparator '' React'' ?a ?b = 0" by simp
  with tr sent titles show ?thesis by simp
qed

section \<open>The rows returned\<close>

text \<open>
  C8. In a 200 response of either endpoint, every object of the data array has a type
  among \<open>profile\<close>, \<open>skill\<close>, \<open>project\<close>, \<open>work\<close> and an id that is the id of a row of
  that type's table in the store, and the count is the length of the data array.
\<close>

theorem results_resolve:
  "(status (fst (search (db_all (Some srv)) req)) = 200 \<longrightarrow>
      (\<forall>r \<in> set (data (body (fst (search (db_all (Some srv)) req)))).
          rtype r \<in> {''profile'', ''skill'', ''project'', ''work''}
          \<and> resolves (server_store srv) r)
      \<and> count (body (fst (search (db_all (Some srv)) req)))
          = length (data (body (fst (search (db_all (Some srv)) req)))))
   \<and> (status (fst (advanced (db_all (Some srv)) req)) = 200 \<longrightarrow>
      (\<forall>r \<in> set (data (body (fst (advanced (db_all (Some srv)) req)))).
          rtype r \<in> {''profile'', ''skill'', ''project'', ''work''}
          \<and> resolves (server_store srv) r)
      \<and> count (body (fst (advanced (db_all (Some srv)) req)))
          = length (data (body (fst (advanced (db_all (Some srv)) req)))))"
proof (intro conjI impI)
  let ?db = "db_all (Some srv)"
  {
    assume "status (fst (search ?db req)) = 200"
    from search_ok[OF this] obtain query where
      f: "fst (search ?db req) =
            \<lparr>status = 200,
             body = SearchBody True (trim query) (length (merged ?db (snd (search ?db req))))
                      (js_sort (comparator query) (merged ?db (snd (search ?db req))))\<rparr>"
      by blast
    show "\<forall>r \<in> set (data (body (fst (search ?db req)))).
          rtype r \<in> {''profile'', ''skill'', ''project'', ''work''} \<and> resolves (server_store srv) r"
    proof
      fix r
      assume "r \<in> set (data (body (fst (search ?db req))))"
      with f have "r \<in> set (merged ?db (snd (search ?db req)))"
        by (simp add: set_js_sort)
      then have "resolves (server_store srv) r" by (rule merged_resolves)
      then show "rtype r \<in> {''profile'', ''skill'', ''project'', ''work''}
                 \<and> resolves (server_store srv) r"
        using resolves_type by blast
    qed
    show "count (body (fst (search ?db req))) = length (data (body (fst (search ?db req))))"
      using f by (simp add: length_js_sort)
  }
  {
    assume "status (fst (advanced ?db req)) = 200"
    from advanced_ok[OF this] obtain query where
      f: "fst (advanced ?db req) =
            \<lparr>status = 200,
             body = AdvancedBody True (trim query) (or_all (type_param req))
                      (or_all (category_param req))
                      (length (slice0 (merged ?db (snd (advanced ?db req)))
                         (parseInt (limit_argument req))))
                      (slice0 (merged ?db (snd (advanced ?db req)))
                         (parseInt (limit_argument req)))\<rparr>"
      by blast
    show "\<forall>r \<in> set (data (body (fst (advanced ?db req)))).
          rtype r \<in> {''profile'', ''skill'', ''project'', ''work''} \<and> resolves (server_store srv) r"
    proof
      fix r
      assume "r \<in> set (data (body (fst (advanced ?db req))))"
      with f have "r \<in> set (merged ?db (snd (advanced ?db req)))"
        using set_slice0 by fastforce
      then have "resolves (server_store srv) r" by (rule merged_resolves)
      then show "rtype r \<in> {''profile'', ''skill'', ''project'', ''work''}
                 \<and> resolves (server_store srv) r"
        using resolves_type by blast
    qed
    show "count (body (fst (advanced ?db req))) = length (data (body (fst (advanced ?db req))))"
      using f by simp
  }
qed

text \<open>
  The search for \<open>React\<close> on the example tables returns four objects; the last one is the
  project of id 1, which is in the projects table.
\<close>

theorem results_resolve_witness:
  "status (fst (search example_db (request ''React'' None None None))) = 200
   \<and> map (\<lambda>r. (rtype r, rid r)) (data (body (fst (search example_db (request ''React'' None None None)))))
       = [(''skill'', 1), (''project'', 2), (''work'', 1), (''project'', 1)]
   \<and> resolves example_store
        (data (body (fst (search example_db (request ''React'' None None None)))) ! 3)
   \<and> count (body (fst (search example_db (request ''React'' None None None)))) = 4"
proof -
  let ?D = "data (body (fst (search example_db (request ''React'' None None None))))"
  have ok: "status (fst (search example_db (request ''React'' None None None))) = 200"
    by code_simp
  have ids: "map (\<lambda>r. (rtype r, rid r)) ?D
       = [(''skill'', 1), (''project'', 2), (''work'', 1), (''project'', 1)]"
    by code_simp
  then have "length (map (\<lambda>r. (rtype r, rid r)) ?D) = 4" by simp
  then have len: "length ?D = 4" by simp
  then have mem: "?D ! 3 \<in> set ?D" by simp
  from results_resolve[of example_server "request ''React'' None None None"] ok
  have all: "\<forall>r \<in> set ?D. rtype r \<in> {''profile'', ''skill'', ''project'', ''work''}
                 \<and> resolves example_store r"
    and cnt: "count (body (fst (search example_db (request ''React'' None None None)))) = length ?D"
    by (simp_all add: example_db_def example_server_def)
  from all mem have "resolves example_store (?D ! 3)" by blast
  with ok ids cnt len show ?thesis by simp
qed

section \<open>The category filter\<close>

text \<open>
  In the skills statement with the category filter, a skill whose name matches the
  pattern is selected whatever its category is: the \<open>AND category = ?\<close> that is spliced
  in belongs to the second \<open>LIKE\<close> only. This holds for every engine.
\<close>

lemma skill_name_match_selected:
  assumes "r \<in> set (skills st)" "like eng (skill_name r) p1"
  shows "\<exists>rows. run_select eng st (SelectSkills True, [p1, p2, c]) = Inr rows
           \<and> skill_select r \<in> set rows"
  using assms by auto

text \<open>
  C1 asks that, with \<open>type=skill\<close> and a category filter, every row returned has a
  category equal to the filter. The code does not do that: for \<open>q=React\<close>,
  \<open>type=skill\<close>, \<open>category=Backend\<close> on the example tables, the one query sent is the
  skills statement with the filter \<open>Backend\<close>, and the skill \<open>React\<close>, of category
  \<open>Frontend\<close>, is returned.
\<close>

theorem category_filter_returns_other_category:
  "advanced example_db (request ''React'' (Some ''skill'') (Some ''Backend'') None) =
     (\<lparr>status = 200,
       body = AdvancedBody True ''React'' ''skill'' ''Backend'' 1
                [\<lparr>rtype = ''skill'', title = ''React'', description = Text ''Expert level'',
                  category = Some ''Frontend'', rid = 1\<rparr>]\<rparr>,
      [(SelectSkills True, [''%React%'', ''%React%'', ''Backend''])])"
  by code_simp

end
